theory Spec2Isabelle
  imports Complex_Main "HOL-Library.AList"
begin

section \<open>Pricing policy (config/ai.js)\<close>

text \<open>
  Token counts and credit amounts are integers and are modelled as \<open>int\<close>. Prices are
  IEEE doubles. A finite double is a rational number, so a double is modelled as the
  \<open>rat\<close> it denotes, and \<open>double x\<close> is the double nearest to \<open>x\<close>: 53 significant bits,
  ties to the even significand. The range of the exponent is not bounded (no overflow to
  \<open>Infinity\<close>, no subnormal numbers; neither is reached below \<open>10^300\<close> tokens). The
  literal \<open>0.00003\<close> is \<open>double (3 / 100000)\<close>, and \<open>x * y\<close> on numbers is
  \<open>js_mul x y\<close>, the exact product rounded once. The API keys of \<open>AI_PROVIDERS\<close> come from
  the process environment and are not part of the constant below.
\<close>

function bitlen :: "int \<Rightarrow> int" where
  "bitlen n = (if n \<le> 0 then 0 else 1 + bitlen (n div 2))"
  by pat_completeness auto
termination
  by (relation "measure nat") auto

declare bitlen.simps [simp del]

definition two_pow :: "int \<Rightarrow> rat" where
  "two_pow k = (if 0 \<le> k then 2 ^ nat k else 1 / 2 ^ nat (- k))"

text \<open>For \<open>x > 0\<close>, the exponent \<open>e\<close> with \<open>2^e \<le> x < 2^(e+1)\<close>.\<close>

definition binade :: "rat \<Rightarrow> int" where
  "binade x =
     (let p = fst (quotient_of x); q = snd (quotient_of x);
          k = bitlen p - bitlen q
      in if two_pow k \<le> x then k else k - 1)"

definition round_half_even :: "rat \<Rightarrow> int" where
  "round_half_even x =
     (let f = \<lfloor>x\<rfloor>; d = x - of_int f
      in if d < 1 / 2 then f else if 1 / 2 < d then f + 1 else if even f then f else f + 1)"

definition double :: "rat \<Rightarrow> rat" where
  "double x =
     (if x = 0 then 0
      else (let a = \<bar>x\<bar>; ulp = two_pow (binade a - 52);
                m = round_half_even (a / ulp)
            in (if x < 0 then - 1 else 1) * of_int m * ulp))"

definition js_mul :: "rat \<Rightarrow> rat \<Rightarrow> rat" where
  "js_mul x y = double (x * y)"


datatype provider = openai | anthropic

record model_config =
  name :: string
  endpoint :: string
  costPerToken :: rat
  maxTokens :: nat
  capabilities :: "string list"

record provider_config =
  baseURL :: string
  models :: "(string \<times> model_config) list"

definition openai_config :: provider_config where
  "openai_config =
     \<lparr>baseURL = ''https://api.openai.com/v1'',
      models =
        [(''gpt-4'',
          \<lparr>name = ''GPT-4'', endpoint = ''/chat/completions'', costPerToken = double (3 / 100000),
           maxTokens = 8192, capabilities = [''text'', ''code'', ''analysis'']\<rparr>),
         (''gpt-3.5-turbo'',
          \<lparr>name = ''GPT-3.5 Turbo'', endpoint = ''/chat/completions'',
           costPerToken = double (2 / 1000000), maxTokens = 4096,
           capabilities = [''text'', ''code'', ''chat'']\<rparr>)]\<rparr>"

definition anthropic_config :: provider_config where
  "anthropic_config =
     \<lparr>baseURL = ''https://api.anthropic.com/v1'',
      models =
        [(''claude-3-sonnet'',
          \<lparr>name = ''Claude 3 Sonnet'', endpoint = ''/messages'', costPerToken = double (15 / 1000000),
           maxTokens = 4096, capabilities = [''text'', ''analysis'', ''code'']\<rparr>)]\<rparr>"

text \<open>\<open>AI_PROVIDERS[provider]\<close>, and \<open>Object.entries(AI_PROVIDERS)\<close> in insertion order.\<close>

fun AI_PROVIDERS :: "provider \<Rightarrow> provider_config" where
  "AI_PROVIDERS openai = openai_config"
| "AI_PROVIDERS anthropic = anthropic_config"

definition AI_PROVIDERS_entries :: "(provider \<times> provider_config) list" where
  "AI_PROVIDERS_entries = [(openai, AI_PROVIDERS openai), (anthropic, AI_PROVIDERS anthropic)]"

text \<open>
  \<open>config.models[model]\<close> is a property read on an object literal. It finds the object's
  own property of that name, and otherwise the property the object inherits from
  \<open>Object.prototype\<close>, if the name is one of those below; every inherited value is a
  function or an object, hence truthy, and none has a \<open>costPerToken\<close>.
\<close>

definition object_prototype_keys :: "string list" where
  "object_prototype_keys =
     [''constructor'', ''__proto__'', ''hasOwnProperty'', ''isPrototypeOf'',
      ''propertyIsEnumerable'', ''toLocaleString'', ''toString'', ''valueOf'',
      ''__defineGetter__'', ''__defineSetter__'', ''__lookupGetter__'', ''__lookupSetter__'']"

datatype 'a property = Own 'a | Inherited | Undefined

definition js_get :: "(string \<times> 'a) list \<Rightarrow> string \<Rightarrow> 'a property" where
  "js_get obj k =
     (case map_of obj k of
        Some v \<Rightarrow> Own v
      | None \<Rightarrow> if k \<in> set object_prototype_keys then Inherited else Undefined)"

fun truthy :: "'a property \<Rightarrow> bool" where
  "truthy (Own v) = True"
| "truthy Inherited = True"
| "truthy Undefined = False"

text \<open>The loop of \<open>getProviderForModel\<close>: the first provider whose lookup is truthy.\<close>

fun getProviderForModel_loop :: "(provider \<times> provider_config) list \<Rightarrow> string \<Rightarrow> provider option" where
  "getProviderForModel_loop [] model = None"
| "getProviderForModel_loop ((p, config) # rest) model =
     (if truthy (js_get (models config) model) then Some p
      else getProviderForModel_loop rest model)"

definition getProviderForModel :: "string \<Rightarrow> provider option" where
  "getProviderForModel model = getProviderForModel_loop AI_PROVIDERS_entries model"

definition isModelAvailable :: "string \<Rightarrow> bool" where
  "isModelAvailable model = (getProviderForModel model \<noteq> None)"

text \<open>
  What \<open>calculateCredits\<close> yields: a number, \<open>NaN\<close> (from \<open>tokens * undefined\<close>, which
  \<open>Math.ceil\<close> and \<open>Math.max\<close> pass on), or the \<open>TypeError\<close> of reading a property of
  \<open>undefined\<close>.
\<close>

datatype js_result = Number int | NaN | TypeError

definition calculateCredits :: "int \<Rightarrow> string \<Rightarrow> js_result" where
  "calculateCredits tokens model =
     (case getProviderForModel model of
        None \<Rightarrow> Number 1
      | Some p \<Rightarrow>
          (case js_get (models (AI_PROVIDERS p)) model of
             Own modelConfig \<Rightarrow>
               (let usdCost = js_mul (of_int tokens) (costPerToken modelConfig);
                    credits = max 1 (\<lceil>js_mul usdCost 100\<rceil>)
                in Number credits)
           | Inherited \<Rightarrow> NaN
           | Undefined \<Rightarrow> TypeError))"



section \<open>Accounts (the User model)\<close>

text \<open>
  Of the user document only the ledger fields are modelled. The methods below are the
  in-memory mutation that \<open>save()\<close> then writes back. The store is an external
  collaborator that does not fail by itself; what can reject a save is the validation
  of the schema. It is written out where a handler saves a document that its schema
  rejects (the AI log and the usage transaction of \<open>POST /generate\<close>); the other saves
  are of documents that were valid when they were loaded and stay so.
\<close>

record user =
  credits :: int
  totalCreditsUsed :: int
  totalCreditsPurchased :: int

text \<open>
  The schema default \<open>parseInt(process.env.DEFAULT_CREDITS) || 10\<close>; the argument is the
  parsed environment variable, \<open>None\<close> when it is unset or not a number.
\<close>

definition default_credits :: "int option \<Rightarrow> int" where
  "default_credits env = (case env of None \<Rightarrow> 10 | Some n \<Rightarrow> if n = 0 then 10 else n)"

definition new_user :: "int option \<Rightarrow> user" where
  "new_user env =
     \<lparr>credits = default_credits env, totalCreditsUsed = 0, totalCreditsPurchased = 0\<rparr>"

datatype account_error = InsufficientCredits

text \<open>
  \<open>deductCredits\<close> throws before it touches the document; the result pairs what the call
  yields with the document as it is afterwards.
\<close>

definition deductCredits :: "user \<Rightarrow> int \<Rightarrow> (account_error + unit) \<times> user" where
  "deductCredits this amount =
     (if credits this < amount then (Inl InsufficientCredits, this)
      else (Inr (),
            this\<lparr>credits := credits this - amount,
                 totalCreditsUsed := totalCreditsUsed this + amount\<rparr>))"

definition addCredits :: "user \<Rightarrow> int \<Rightarrow> user" where
  "addCredits this amount =
     this\<lparr>credits := credits this + amount,
          totalCreditsPurchased := totalCreditsPurchased this + amount\<rparr>"

text \<open>
  The clawback of the refund route (routes/admin.js): the credits of the refunded
  transaction are taken back only when the balance covers them.
\<close>

definition clawback :: "user \<Rightarrow> int \<Rightarrow> user" where
  "clawback u c = (if c > 0 \<and> credits u \<ge> c then u\<lparr>credits := credits u - c\<rparr> else u)"

text \<open>Sequences of balance operations on one account, and the states they go through.\<close>

datatype ledger_op = Debit int | Credit int | Clawback int

fun apply_op :: "user \<Rightarrow> ledger_op \<Rightarrow> user" where
  "apply_op u (Debit a) = snd (deductCredits u a)"
| "apply_op u (Credit a) = addCredits u a"
| "apply_op u (Clawback c) = clawback u c"

fun states_after :: "user \<Rightarrow> ledger_op list \<Rightarrow> user list" where
  "states_after u [] = []"
| "states_after u (x # xs) = apply_op u x # states_after (apply_op u x) xs"

text \<open>A credit operation adds an amount \<open>\<ge> 0\<close>; debits and clawbacks take any amount.\<close>

fun credit_amount_ok :: "ledger_op \<Rightarrow> bool" where
  "credit_amount_ok (Credit a) = (0 \<le> a)"
| "credit_amount_ok _ = True"

fun is_clawback :: "ledger_op \<Rightarrow> bool" where
  "is_clawback (Clawback c) = True"
| "is_clawback _ = False"

section \<open>Transactions (the Transaction model)\<close>

text \<open>
  Field names carry a prefix where the user record has a field of the same name.
  Dates are milliseconds as \<open>nat\<close>; the clock is an argument (\<open>now\<close>). Amounts of
  money are \<open>rat\<close>; they are only compared and copied, never computed with.
\<close>

datatype tx_type = credit_purchase | credit_usage | subscription | refund | bonus

datatype tx_status = pending | completed | failed | cancelled | refunded

record transaction =
  tx_id :: nat
  tx_user :: nat
  tx_type :: tx_type
  tx_status :: tx_status
  tx_amount :: rat
  tx_credits :: int
  tx_description :: string
  paymentIntentId :: "string option"
  aiUsage_model :: "string option"
  aiUsage_tokens :: int
  aiUsage_requestType :: "string option"
  refund_isRefunded :: bool
  refund_refundAmount :: rat
  refund_refundDate :: "nat option"
  refund_refundReason :: "string option"
  refund_refundTransactionId :: "string option"
  completedAt :: "nat option"
  failedAt :: "nat option"
  failureReason :: "string option"

definition markCompleted :: "nat \<Rightarrow> transaction \<Rightarrow> transaction" where
  "markCompleted now this = this\<lparr>tx_status := completed, completedAt := Some now\<rparr>"

definition markFailed :: "nat \<Rightarrow> string \<Rightarrow> transaction \<Rightarrow> transaction" where
  "markFailed now reason this =
     this\<lparr>tx_status := failed, failedAt := Some now, failureReason := Some reason\<rparr>"

text \<open>\<open>amount || this.amount\<close>: a zero amount falls back to the transaction's own.\<close>

definition processRefund :: "nat \<Rightarrow> rat \<Rightarrow> string \<Rightarrow> string \<Rightarrow> transaction \<Rightarrow> transaction" where
  "processRefund now amount reason refundTransactionId this =
     this\<lparr>refund_isRefunded := True,
          refund_refundAmount := (if amount = 0 then tx_amount this else amount),
          refund_refundDate := Some now,
          refund_refundReason := Some reason,
          refund_refundTransactionId := Some refundTransactionId,
          tx_status := refunded\<rparr>"

section \<open>The store\<close>

text \<open>
  The AI log of a request, and the store: the users by id (read with \<open>map_of\<close>, saved
  with \<open>AList.update\<close>), the transactions, the AI logs, and the number of requests sent
  to an external AI provider so far. \<open>performance.processingTime\<close> and \<open>cost.credits\<close>
  of a log are \<open>None\<close> as long as they are not set.
\<close>

datatype ai_log_status = log_processing | log_completed | log_failed

record ai_log =
  log_user :: nat
  log_model :: string
  log_requestType :: string
  log_prompt :: string
  log_status :: ai_log_status
  log_tokens :: int
  log_processingTime :: "nat option"
  log_cost_credits :: "int option"

record world =
  users :: "(nat \<times> user) list"
  transactions :: "transaction list"
  aiLogs :: "ai_log list"
  providerCalls :: nat

definition findById :: "transaction list \<Rightarrow> nat \<Rightarrow> transaction option" where
  "findById txs i = find (\<lambda>t. tx_id t = i) txs"

text \<open>\<open>Transaction.findOne({'paymentProvider.paymentIntentId': id})\<close>: the first match.\<close>

definition findOne_paymentIntent :: "transaction list \<Rightarrow> string \<Rightarrow> transaction option" where
  "findOne_paymentIntent txs pid = find (\<lambda>t. paymentIntentId t = Some pid) txs"

text \<open>Saving a loaded document replaces the stored document of the same id.\<close>

definition save_transaction :: "transaction \<Rightarrow> transaction list \<Rightarrow> transaction list" where
  "save_transaction t txs = map (\<lambda>x. if tx_id x = tx_id t then t else x) txs"

section \<open>Payment settlement (routes/payments.js)\<close>

definition handlePaymentSuccess :: "nat \<Rightarrow> world \<Rightarrow> string \<Rightarrow> world" where
  "handlePaymentSuccess now w pid =
     (case findOne_paymentIntent (transactions w) pid of
        None \<Rightarrow> w
      | Some t \<Rightarrow>
          if tx_status t = completed then w
          else (case map_of (users w) (tx_user t) of
                  None \<Rightarrow> w
                | Some u \<Rightarrow>
                    w\<lparr>users := AList.update (tx_user t) (addCredits u (tx_credits t)) (users w),
                      transactions := save_transaction (markCompleted now t) (transactions w)\<rparr>))"

text \<open>
  The sibling handler of the failure event, which the success handler can be compared
  with: it leaves every transaction that is not pending alone.
\<close>

definition handlePaymentFailure :: "nat \<Rightarrow> string \<Rightarrow> world \<Rightarrow> string \<Rightarrow> world" where
  "handlePaymentFailure now reason w pid =
     (case findOne_paymentIntent (transactions w) pid of
        None \<Rightarrow> w
      | Some t \<Rightarrow>
          if tx_status t \<noteq> pending then w
          else w\<lparr>transactions := save_transaction (markFailed now reason t) (transactions w)\<rparr>)"

text \<open>Delivering the success event \<open>n\<close> times.\<close>

fun deliver :: "nat \<Rightarrow> nat \<Rightarrow> world \<Rightarrow> string \<Rightarrow> world" where
  "deliver 0 now w pid = w"
| "deliver (Suc n) now w pid = deliver n now (handlePaymentSuccess now w pid) pid"

section \<open>Admin refund (routes/admin.js)\<close>

datatype refund_response =
    Refund_Ok
  | Refund_Invalid
  | Refund_NotFound
  | Refund_NotCompleted
  | Refund_AlreadyRefunded
  | Refund_ServerError

text \<open>The decimal digits of a number, for \<open>`refund_${Date.now()}`\<close>.\<close>

function string_of_nat :: "nat \<Rightarrow> string" where
  "string_of_nat n =
     (if n < 10 then [''0123456789'' ! n]
      else string_of_nat (n div 10) @ [''0123456789'' ! (n mod 10)])"
  by pat_completeness auto
termination
  by (relation "measure id") auto

declare string_of_nat.simps [simp del]

text \<open>
  The express-validator chain of the route: \<open>reason\<close> must not be empty, \<open>amount\<close> is
  optional and at least 0. Then \<open>amount || transaction.amount\<close>, where a missing or zero
  amount falls back to the amount of the transaction.
\<close>

definition valid_refund_request :: "string \<Rightarrow> rat option \<Rightarrow> bool" where
  "valid_refund_request reason amount =
     (reason \<noteq> [] \<and> (case amount of None \<Rightarrow> True | Some a \<Rightarrow> 0 \<le> a))"

definition requested_amount :: "rat option \<Rightarrow> transaction \<Rightarrow> rat" where
  "requested_amount amount t =
     (case amount of None \<Rightarrow> tx_amount t | Some a \<Rightarrow> if a = 0 then tx_amount t else a)"

text \<open>
  The handler after \<open>validateObjectId\<close>. \<open>Refund_NotCompleted\<close> is the answer 400
  "Apenas transacoes completas podem ser reembolsadas", \<open>Refund_AlreadyRefunded\<close> the
  answer 400 "Transacao ja foi reembolsada", and \<open>Refund_ServerError\<close> the answer 500 of
  the \<open>catch\<close>, reached when the populated user is missing and its credits are read.
  Where the balance does not cover the credits nothing is saved; writing back the
  unchanged user, as \<open>clawback\<close> does here, leaves the same store.
\<close>

definition refund_route :: "nat \<Rightarrow> world \<Rightarrow> nat \<Rightarrow> string \<Rightarrow> rat option \<Rightarrow> refund_response \<times> world" where
  "refund_route now w i reason amount =
     (if \<not> valid_refund_request reason amount then (Refund_Invalid, w)
      else
        (case findById (transactions w) i of
           None \<Rightarrow> (Refund_NotFound, w)
         | Some t \<Rightarrow>
             if tx_status t \<noteq> completed then (Refund_NotCompleted, w)
             else if refund_isRefunded t then (Refund_AlreadyRefunded, w)
             else
               (let refundAmount = requested_amount amount t;
                    refundTransactionId = ''refund_'' @ string_of_nat now;
                    w1 = w\<lparr>transactions :=
                             save_transaction (processRefund now refundAmount reason refundTransactionId t)
                               (transactions w)\<rparr>
                in if tx_credits t > 0 then
                     (case map_of (users w1) (tx_user t) of
                        None \<Rightarrow> (Refund_ServerError, w1)
                      | Some u \<Rightarrow>
                          (Refund_Ok,
                           w1\<lparr>users := AList.update (tx_user t) (clawback u (tx_credits t)) (users w1)\<rparr>))
                   else (Refund_Ok, w1))))"

section \<open>Metered AI usage (routes/ai.js)\<close>

text \<open>
  The external provider is a parameter: \<open>ext p prompt requestType model\<close> stands for
  \<open>preparePrompt\<close> followed by the HTTP request to provider \<open>p\<close>, and either fails or
  replies with a text, the total of tokens used and the time it took. \<open>apiKey p\<close> tells
  whether the key of provider \<open>p\<close> is configured. \<open>callRealAI\<close> returns \<open>None\<close> where
  the source throws, and counts the requests that were sent.
\<close>

datatype provider_reply = Reply string int nat | Failure

definition callRealAI ::
  "(provider \<Rightarrow> bool) \<Rightarrow> (provider \<Rightarrow> string \<Rightarrow> string \<Rightarrow> string \<Rightarrow> provider_reply) \<Rightarrow>
   string \<Rightarrow> string \<Rightarrow> string \<Rightarrow> nat \<Rightarrow> (string \<times> int \<times> nat) option \<times> nat" where
  "callRealAI apiKey ext prompt requestType model calls =
     (case getProviderForModel model of
        None \<Rightarrow> (None, calls)
      | Some p \<Rightarrow>
          if \<not> apiKey p then (None, calls)
          else (case ext p prompt requestType model of
                  Failure \<Rightarrow> (None, Suc calls)
                | Reply text tokens time \<Rightarrow> (Some (text, tokens, time), Suc calls)))"

text \<open>\<open>a < b\<close> on JavaScript numbers: false as soon as one side is not a number.\<close>

fun js_less :: "js_result \<Rightarrow> js_result \<Rightarrow> bool" where
  "js_less (Number a) (Number b) = (a < b)"
| "js_less _ _ = False"

record ai_request =
  prompt :: string
  model :: "string option"
  requestType :: "string option"

text \<open>The defaults of the destructured request body.\<close>

definition request_model :: "ai_request \<Rightarrow> string" where
  "request_model req = (case model req of None \<Rightarrow> ''gpt-3.5-turbo'' | Some x \<Rightarrow> x)"

definition request_type :: "ai_request \<Rightarrow> string" where
  "request_type req = (case requestType req of None \<Rightarrow> ''text_generation'' | Some x \<Rightarrow> x)"

text \<open>
  What the handler answers. \<open>AI_InsufficientCredits\<close> is the answer 402 and
  \<open>AI_ServerError\<close> the answer 500 of the \<open>catch\<close>. \<open>AI_Unhandled\<close> stands for the
  \<open>catch\<close> block throwing itself: the promise of the handler is rejected and the handler
  sends no answer.
\<close>

datatype ai_response =
    AI_Ok string int int
  | AI_Unauthenticated
  | AI_ModelUnavailable
  | AI_InsufficientCredits js_result int
  | AI_ServerError
  | AI_Unhandled

definition fresh_tx_id :: "transaction list \<Rightarrow> nat" where
  "fresh_tx_id txs = Suc (fold max (map tx_id txs) 0)"

text \<open>
  The log document as the handler creates it, before the provider is called: neither
  \<open>performance.processingTime\<close> nor \<open>cost.credits\<close> is given.
\<close>

definition new_ai_log :: "nat \<Rightarrow> ai_request \<Rightarrow> ai_log" where
  "new_ai_log uid req =
     \<lparr>log_user = uid, log_model = request_model req, log_requestType = request_type req,
      log_prompt = prompt req, log_status = log_processing, log_tokens = 0,
      log_processingTime = None, log_cost_credits = None\<rparr>"

text \<open>
  The validation of the AILog schema on \<open>save()\<close>: the enumerations of \<open>requestType\<close>
  and \<open>model\<close>, the required prompt of at most 10000 characters, and the required
  \<open>performance.processingTime\<close> and \<open>cost.credits\<close> (at least 0).
\<close>

definition ailog_requestTypes :: "string list" where
  "ailog_requestTypes =
     [''text_generation'', ''code_generation'', ''image_analysis'', ''chat'',
      ''hacking_tools'', ''vulnerability_scan'', ''penetration_test'']"

definition ailog_models :: "string list" where
  "ailog_models = [''gpt-4'', ''gpt-3.5-turbo'', ''claude-3'', ''gemini-pro'', ''custom-hacking-ai'']"

definition valid_ai_log :: "ai_log \<Rightarrow> bool" where
  "valid_ai_log l =
     (log_requestType l \<in> set ailog_requestTypes \<and> log_model l \<in> set ailog_models
      \<and> log_prompt l \<noteq> [] \<and> length (log_prompt l) \<le> 10000
      \<and> (case log_processingTime l of None \<Rightarrow> False | Some t \<Rightarrow> True)
      \<and> (case log_cost_credits l of None \<Rightarrow> False | Some c \<Rightarrow> 0 \<le> c))"

text \<open>
  The validation of the Transaction schema on \<open>save()\<close>, for the fields the handlers
  set: amount and credits at least 0, a description of 1 to 500 characters, and the
  enumeration of \<open>aiUsage.requestType\<close>.
\<close>

definition transaction_requestTypes :: "string list" where
  "transaction_requestTypes = [''text'', ''image'', ''code'', ''analysis'', ''chat'']"

definition valid_transaction :: "transaction \<Rightarrow> bool" where
  "valid_transaction t =
     (0 \<le> tx_amount t \<and> 0 \<le> tx_credits t
      \<and> tx_description t \<noteq> [] \<and> length (tx_description t) \<le> 500
      \<and> (case aiUsage_requestType t of
            None \<Rightarrow> True
          | Some r \<Rightarrow> r \<in> set transaction_requestTypes))"

definition estimatedTokens :: "string \<Rightarrow> int" where
  "estimatedTokens p = \<lceil>(of_nat (length p) :: rat) / 4\<rceil> + 500"

definition usage_transaction ::
  "nat \<Rightarrow> nat \<Rightarrow> nat \<Rightarrow> string \<Rightarrow> string \<Rightarrow> int \<Rightarrow> int \<Rightarrow> transaction" where
  "usage_transaction now i uid m rt tokens actualCredits =
     \<lparr>tx_id = i, tx_user = uid, tx_type = credit_usage, tx_status = completed, tx_amount = 0,
      tx_credits = actualCredits,
      tx_description = ''Uso da IA - '' @ m @ '' ('' @ rt @ '')'',
      paymentIntentId = None, aiUsage_model = Some m, aiUsage_tokens = tokens,
      aiUsage_requestType = Some rt,
      refund_isRefunded = False, refund_refundAmount = 0, refund_refundDate = None,
      refund_refundReason = None, refund_refundTransactionId = None,
      completedAt = Some now, failedAt = None, failureReason = None\<rparr>"

text \<open>
  The \<open>catch\<close> of the handler. \<open>aiLog.markFailed\<close> sets the status and saves the log;
  \<open>ok\<close> is the validation of that save. When it passes, the log is stored as failed
  (\<open>logs0\<close> are the logs before this request) and the answer is 500; when it does not,
  \<open>markFailed\<close> throws inside the \<open>catch\<close>. No transaction and no user is touched.
\<close>

definition on_error ::
  "(ai_log \<Rightarrow> bool) \<Rightarrow> world \<Rightarrow> ai_log list \<Rightarrow> ai_log \<Rightarrow> ai_response \<times> world" where
  "on_error ok w logs0 aiLog =
     (let l = aiLog\<lparr>log_status := log_failed\<rparr>
      in if ok l then (AI_ServerError, w\<lparr>aiLogs := logs0 @ [l]\<rparr>) else (AI_Unhandled, w))"

text \<open>
  The handler of \<open>POST /generate\<close> for the user \<open>uid\<close> that \<open>authenticateToken\<close> loaded,
  with the validation of the saves of the AI log as the parameter \<open>ok\<close>. Every step of
  the \<open>try\<close> block that throws goes to \<open>on_error\<close> with the store as it is by then: the
  first save of the log, the call of the provider, the deduction, the save of the usage
  transaction, and the two saves of the log after \<open>markCompleted\<close> and after the cost
  is set. A cost that is not a number cannot be stored (the cast of the \<open>Number\<close> path
  rejects it), so that save throws as well. \<open>remainingCredits\<close> is computed from the
  document after the deduction, as the source does.
\<close>

definition generate_with ::
  "(ai_log \<Rightarrow> bool) \<Rightarrow> (provider \<Rightarrow> bool) \<Rightarrow>
   (provider \<Rightarrow> string \<Rightarrow> string \<Rightarrow> string \<Rightarrow> provider_reply) \<Rightarrow>
   nat \<Rightarrow> world \<Rightarrow> nat \<Rightarrow> ai_request \<Rightarrow> ai_response \<times> world" where
  "generate_with ok apiKey ext now w uid req =
     (case map_of (users w) uid of
        None \<Rightarrow> (AI_Unauthenticated, w)
      | Some u \<Rightarrow>
          (let m = request_model req; rt = request_type req
           in if \<not> isModelAvailable m then (AI_ModelUnavailable, w)
              else
                (let requiredCredits = calculateCredits (estimatedTokens (prompt req)) m
                 in if js_less (Number (credits u)) requiredCredits
                    then (AI_InsufficientCredits requiredCredits (credits u), w)
                    else
                      (let aiLog = new_ai_log uid req; logs0 = aiLogs w
                       in if \<not> ok aiLog then on_error ok w logs0 aiLog
                          else
                            (case callRealAI apiKey ext (prompt req) rt m (providerCalls w) of
                               (None, calls) \<Rightarrow>
                                 on_error ok
                                   (w\<lparr>aiLogs := logs0 @ [aiLog], providerCalls := calls\<rparr>)
                                   logs0 aiLog
                             | (Some (text, tokens, time), calls) \<Rightarrow>
                                 (let w2 = w\<lparr>aiLogs := logs0 @ [aiLog], providerCalls := calls\<rparr>
                                  in case calculateCredits tokens m of
                                       Number actualCredits \<Rightarrow>
                                         (case deductCredits u actualCredits of
                                            (Inl e, u') \<Rightarrow> on_error ok w2 logs0 aiLog
                                          | (Inr r, u') \<Rightarrow>
                                              (let w3 = w2\<lparr>users := AList.update uid u' (users w2)\<rparr>;
                                                   t = usage_transaction now
                                                         (fresh_tx_id (transactions w)) uid m rt
                                                         tokens actualCredits
                                               in if \<not> valid_transaction t
                                                  then on_error ok w3 logs0 aiLog
                                                  else
                                                    (let w4 = w3\<lparr>transactions := transactions w3 @ [t]\<rparr>;
                                                         completed_log =
                                                           aiLog\<lparr>log_status := log_completed,
                                                                 log_tokens := tokens,
                                                                 log_processingTime := Some time\<rparr>
                                                     in if \<not> ok completed_log
                                                        then on_error ok w4 logs0 completed_log
                                                        else
                                                          (let w5 = w4\<lparr>aiLogs := logs0 @ [completed_log]\<rparr>;
                                                               costed_log =
                                                                 completed_log
                                                                   \<lparr>log_cost_credits := Some actualCredits\<rparr>
                                                           in if \<not> ok costed_log
                                                              then on_error ok w5 logs0 costed_log
                                                              else
                                                                (AI_Ok text actualCredits
                                                                   (credits u' - actualCredits),
                                                                 w5\<lparr>aiLogs := logs0 @ [costed_log]\<rparr>)))))
                                     | _ \<Rightarrow> on_error ok w2 logs0 aiLog))))))"

text \<open>The handler as it runs: the saves of the log are validated by the AILog schema.\<close>

definition generate ::
  "(provider \<Rightarrow> bool) \<Rightarrow> (provider \<Rightarrow> string \<Rightarrow> string \<Rightarrow> string \<Rightarrow> provider_reply) \<Rightarrow>
   nat \<Rightarrow> world \<Rightarrow> nat \<Rightarrow> ai_request \<Rightarrow> ai_response \<times> world" where
  "generate = generate_with valid_ai_log"

text \<open>The registration route: the new user and the welcome-bonus transaction.\<close>

definition register :: "int option \<Rightarrow> nat \<Rightarrow> world \<Rightarrow> nat \<Rightarrow> world" where
  "register env now w uid =
     w\<lparr>users := AList.update uid (new_user env) (users w),
       transactions := transactions w @
         [\<lparr>tx_id = fresh_tx_id (transactions w), tx_user = uid, tx_type = bonus,
           tx_status = completed, tx_amount = 0, tx_credits = default_credits env,
           tx_description = ''Bonus de boas-vindas'',
           paymentIntentId = None, aiUsage_model = None, aiUsage_tokens = 0,
      aiUsage_requestType = None,
           refund_isRefunded = False, refund_refundAmount = 0, refund_refundDate = None,
           refund_refundReason = None, refund_refundTransactionId = None,
           completedAt = Some now, failedAt = None, failureReason = None\<rparr>]\<rparr>"

section \<open>Sample data\<close>

text \<open>
  The purchase of the package "premium" (500 credits and 100 of bonus for 39.99) by user
  1, in a given status, and a store that holds it.
\<close>

definition sample_purchase :: "tx_status \<Rightarrow> transaction" where
  "sample_purchase st =
     \<lparr>tx_id = 1, tx_user = 1, tx_type = credit_purchase, tx_status = st, tx_amount = 3999 / 100,
      tx_credits = 600, tx_description = ''500 creditos + 20% de bonus'',
      paymentIntentId = Some ''pi_1'', aiUsage_model = None, aiUsage_tokens = 0,
      aiUsage_requestType = None,
      refund_isRefunded = False, refund_refundAmount = 0, refund_refundDate = None,
      refund_refundReason = None, refund_refundTransactionId = None,
      completedAt = None, failedAt = None, failureReason = None\<rparr>"

definition sample_world :: "tx_status \<Rightarrow> world" where
  "sample_world st =
     \<lparr>users = [(1, \<lparr>credits = 10, totalCreditsUsed = 0, totalCreditsPurchased = 0\<rparr>)],
      transactions = [sample_purchase st], aiLogs = [], providerCalls = 0\<rparr>"

text \<open>
  A store whose only user has the given balance, a request for \<open>gpt-4\<close>, a store with
  nothing in it, a provider that always fails, one that always replies, and keys that are
  all set.
\<close>

definition ai_world :: "int \<Rightarrow> world" where
  "ai_world c =
     \<lparr>users = [(1, \<lparr>credits = c, totalCreditsUsed = 0, totalCreditsPurchased = 0\<rparr>)],
      transactions = [], aiLogs = [], providerCalls = 0\<rparr>"

definition sample_request :: ai_request where
  "sample_request =
     \<lparr>prompt = ''Write a slogan'', model = Some ''gpt-4'', requestType = Some ''chat''\<rparr>"

definition replying_provider :: "provider \<Rightarrow> string \<Rightarrow> string \<Rightarrow> string \<Rightarrow> provider_reply" where
  "replying_provider p pr rt m = Reply ''ok'' 1200 850"

definition empty_world :: world where
  "empty_world = \<lparr>users = [], transactions = [], aiLogs = [], providerCalls = 0\<rparr>"

definition failing_provider :: "provider \<Rightarrow> string \<Rightarrow> string \<Rightarrow> string \<Rightarrow> provider_reply" where
  "failing_provider p pr rt m = Failure"

definition all_keys_set :: "provider \<Rightarrow> bool" where
  "all_keys_set p = True"

text \<open>A validation that lets every log through.\<close>

definition any_log :: "ai_log \<Rightarrow> bool" where
  "any_log l = True"

section \<open>Pricing: results\<close>



























text \<open>
  Claim C10. A model name that is in no catalog is meant to cost a flat 1 credit. The
  name \<open>constructor\<close> is in no catalog, yet the lookup \<open>config.models[model]\<close> finds the
  property inherited from \<open>Object.prototype\<close>, so \<open>getProviderForModel\<close> answers
  \<open>openai\<close> and \<open>calculateCredits\<close> yields \<open>NaN\<close>, not 1.
\<close>

theorem calculateCredits_inherited_name:
  "map_of (models (AI_PROVIDERS openai)) ''constructor'' = None
   \<and> map_of (models (AI_PROVIDERS anthropic)) ''constructor'' = None
   \<and> getProviderForModel ''constructor'' = Some openai
   \<and> calculateCredits 1000 ''constructor'' = NaN"
  by (simp add: calculateCredits_def getProviderForModel_def AI_PROVIDERS_entries_def
      openai_config_def anthropic_config_def js_get_def object_prototype_keys_def)

text \<open>
  Apart from the twelve inherited names, a name that is in no catalog does cost 1, and
  the \<open>TypeError\<close> branch of \<open>calculateCredits\<close> is never taken.
\<close>

lemma calculateCredits_unknown:
  assumes "map_of (models (AI_PROVIDERS openai)) m = None"
    and "map_of (models (AI_PROVIDERS anthropic)) m = None"
    and "m \<notin> set object_prototype_keys"
  shows "calculateCredits tokens m = Number 1"
  using assms
  by (simp add: calculateCredits_def getProviderForModel_def AI_PROVIDERS_entries_def js_get_def)

lemma calculateCredits_no_TypeError: "calculateCredits tokens m \<noteq> TypeError"
  by (auto simp: calculateCredits_def getProviderForModel_def AI_PROVIDERS_entries_def js_get_def
      split: option.splits property.splits if_splits)

section \<open>Accounts: results\<close>

lemma apply_op_nonneg:
  "0 \<le> credits u \<Longrightarrow> credit_amount_ok x \<Longrightarrow> 0 \<le> credits (apply_op u x)"
  by (cases x) (auto simp: deductCredits_def addCredits_def clawback_def)

lemma states_after_nonneg:
  "0 \<le> credits u \<Longrightarrow> list_all credit_amount_ok ops \<Longrightarrow>
   list_all (\<lambda>u'. 0 \<le> credits u') (states_after u ops)"
proof (induction ops arbitrary: u)
  case Nil
  then show ?case by simp
next
  case (Cons x xs)
  from Cons.prems have ok: "credit_amount_ok x" and rest: "list_all credit_amount_ok xs"
    by simp_all
  from Cons.prems(1) ok have step: "0 \<le> credits (apply_op u x)"
    by (rule apply_op_nonneg)
  from Cons.IH [OF step rest] step show ?case by simp
qed

text \<open>
  Claim C1. From an account whose balance is not negative, every sequence of debits,
  credits (of amounts \<open>\<ge> 0\<close>) and refund clawbacks goes through states whose balance is
  not negative; and a debit of more than the balance is rejected with
  \<open>InsufficientCredits\<close>, the account staying as it is. The operations run one after the
  other; interleavings of the read and the write of two requests are not modelled.
\<close>

theorem balance_never_negative:
  assumes "0 \<le> credits u" and "list_all credit_amount_ok ops"
  shows "list_all (\<lambda>u'. 0 \<le> credits u') (states_after u ops)
         \<and> (credits v < a \<longrightarrow> deductCredits v a = (Inl InsufficientCredits, v))"
  using assms by (simp add: states_after_nonneg deductCredits_def)

theorem balance_never_negative_witness:
  "0 \<le> credits \<lparr>credits = 10, totalCreditsUsed = 0, totalCreditsPurchased = 0\<rparr>
   \<and> list_all credit_amount_ok [Debit 3, Debit 8, Debit 5, Credit 600, Clawback 700, Clawback 602]
   \<and> list_all (\<lambda>u'. 0 \<le> credits u')
        (states_after \<lparr>credits = 10, totalCreditsUsed = 0, totalCreditsPurchased = 0\<rparr>
           [Debit 3, Debit 8, Debit 5, Credit 600, Clawback 700, Clawback 602])
   \<and> credits \<lparr>credits = 7, totalCreditsUsed = 3, totalCreditsPurchased = 0\<rparr> < 8
   \<and> deductCredits \<lparr>credits = 7, totalCreditsUsed = 3, totalCreditsPurchased = 0\<rparr> 8
       = (Inl InsufficientCredits, \<lparr>credits = 7, totalCreditsUsed = 3, totalCreditsPurchased = 0\<rparr>)"
proof -
  let ?u = "\<lparr>credits = 10, totalCreditsUsed = 0, totalCreditsPurchased = 0\<rparr>"
  let ?v = "\<lparr>credits = 7, totalCreditsUsed = 3, totalCreditsPurchased = 0\<rparr>"
  let ?ops = "[Debit 3, Debit 8, Debit 5, Credit 600, Clawback 700, Clawback 602]"
  have h1: "0 \<le> credits ?u" by simp
  have h2: "list_all credit_amount_ok ?ops" by simp
  have h3: "credits ?v < 8" by simp
  from balance_never_negative [OF h1 h2, of ?v 8] h1 h2 h3 show ?thesis by simp
qed

text \<open>
  Claim C2, as stated, fails for the account that the registration route has just
  created: its balance is the welcome bonus (10 by default), while both totals are 0.
\<close>

theorem fresh_account_totals_counterexample:
  "map_of (users (register None 0 empty_world 1)) 1 = Some (new_user None)
   \<and> totalCreditsPurchased (new_user None) - totalCreditsUsed (new_user None)
       \<noteq> credits (new_user None)"
  by (simp add: register_def empty_world_def new_user_def default_credits_def)

lemma apply_op_books:
  "\<not> is_clawback x \<Longrightarrow>
   credits (apply_op u x) - totalCreditsPurchased (apply_op u x) + totalCreditsUsed (apply_op u x)
     = credits u - totalCreditsPurchased u + totalCreditsUsed u"
  by (cases x) (auto simp: deductCredits_def addCredits_def)

lemma states_after_books:
  "list_all (\<lambda>x. \<not> is_clawback x) ops \<Longrightarrow>
   credits u - totalCreditsPurchased u + totalCreditsUsed u = k \<Longrightarrow>
   list_all (\<lambda>u'. credits u' - totalCreditsPurchased u' + totalCreditsUsed u' = k)
     (states_after u ops)"
proof (induction ops arbitrary: u)
  case Nil
  then show ?case by simp
next
  case (Cons x xs)
  from Cons.prems have nc: "\<not> is_clawback x" and rest: "list_all (\<lambda>x. \<not> is_clawback x) xs"
    by simp_all
  from apply_op_books [OF nc, of u] Cons.prems(2)
  have step: "credits (apply_op u x) - totalCreditsPurchased (apply_op u x)
                + totalCreditsUsed (apply_op u x) = k"
    by simp
  from Cons.IH [OF rest step] step show ?case by simp
qed

text \<open>
  Claim C2, amended. The welcome bonus is the schema default of \<open>credits\<close> and is not
  counted in \<open>totalCreditsPurchased\<close>. For the fresh account and every state it reaches
  by \<open>deductCredits\<close> and \<open>addCredits\<close>, \<open>totalCreditsPurchased - totalCreditsUsed\<close>
  equals \<open>credits\<close> minus the welcome bonus. (The refund clawback is left out.)
\<close>

theorem totals_track_balance_after_bonus:
  assumes "list_all (\<lambda>x. \<not> is_clawback x) ops"
  shows "list_all
           (\<lambda>u'. totalCreditsPurchased u' - totalCreditsUsed u' = credits u' - default_credits env)
           (new_user env # states_after (new_user env) ops)"
proof -
  have start: "credits (new_user env) - totalCreditsPurchased (new_user env)
                 + totalCreditsUsed (new_user env) = default_credits env"
    by (simp add: new_user_def)
  from states_after_books [OF assms start]
  have "list_all (\<lambda>u'. credits u' - totalCreditsPurchased u' + totalCreditsUsed u' = default_credits env)
          (states_after (new_user env) ops)" .
  then have "list_all
           (\<lambda>u'. totalCreditsPurchased u' - totalCreditsUsed u' = credits u' - default_credits env)
           (states_after (new_user env) ops)"
    by (rule list.pred_mono_strong) simp
  moreover from start
  have "totalCreditsPurchased (new_user env) - totalCreditsUsed (new_user env)
          = credits (new_user env) - default_credits env"
    by simp
  ultimately show ?thesis by simp
qed

theorem totals_track_balance_after_bonus_witness:
  "list_all (\<lambda>x. \<not> is_clawback x) [Debit 3, Credit 600, Debit 700, Debit 7]
   \<and> list_all
       (\<lambda>u'. totalCreditsPurchased u' - totalCreditsUsed u' = credits u' - default_credits None)
       (new_user None # states_after (new_user None) [Debit 3, Credit 600, Debit 700, Debit 7])
   \<and> map credits (states_after (new_user None) [Debit 3, Credit 600, Debit 700, Debit 7])
       = [7, 607, 607, 600]"
proof -
  have h: "list_all (\<lambda>x. \<not> is_clawback x) [Debit 3, Credit 600, Debit 700, Debit 7]" by simp
  have e: "map credits (states_after (new_user None) [Debit 3, Credit 600, Debit 700, Debit 7])
       = [7, 607, 607, 600]"
    by (simp add: new_user_def default_credits_def deductCredits_def addCredits_def)
  from totals_track_balance_after_bonus [OF h, of None] h e show ?thesis by simp
qed

text \<open>
  Claim C4. \<open>deductCredits\<close> fails with \<open>InsufficientCredits\<close> exactly when the amount is
  above the balance, and then leaves the account as it was; otherwise it takes the
  amount off \<open>credits\<close> and adds it to \<open>totalCreditsUsed\<close>, and changes nothing else.
\<close>

theorem deductCredits_contract:
  "(fst (deductCredits u a) = Inl InsufficientCredits \<longleftrightarrow> credits u < a)
   \<and> (credits u < a \<longrightarrow> snd (deductCredits u a) = u)
   \<and> (\<not> credits u < a \<longrightarrow>
        deductCredits u a =
          (Inr (), u\<lparr>credits := credits u - a, totalCreditsUsed := totalCreditsUsed u + a\<rparr>))"
  by (simp add: deductCredits_def)

theorem deductCredits_contract_witness:
  "credits \<lparr>credits = 10, totalCreditsUsed = 0, totalCreditsPurchased = 0\<rparr> < 11
   \<and> deductCredits \<lparr>credits = 10, totalCreditsUsed = 0, totalCreditsPurchased = 0\<rparr> 11
       = (Inl InsufficientCredits, \<lparr>credits = 10, totalCreditsUsed = 0, totalCreditsPurchased = 0\<rparr>)
   \<and> \<not> credits \<lparr>credits = 10, totalCreditsUsed = 0, totalCreditsPurchased = 0\<rparr> < 3
   \<and> deductCredits \<lparr>credits = 10, totalCreditsUsed = 0, totalCreditsPurchased = 0\<rparr> 3
       = (Inr (), \<lparr>credits = 7, totalCreditsUsed = 3, totalCreditsPurchased = 0\<rparr>)"
proof -
  let ?u = "\<lparr>credits = 10, totalCreditsUsed = 0, totalCreditsPurchased = 0\<rparr>"
  have a: "credits ?u < 11" and b: "\<not> credits ?u < 3" by simp_all
  from deductCredits_contract [of ?u 11] a
  have "deductCredits ?u 11 = (Inl InsufficientCredits, ?u)"
    by (metis prod.collapse)
  moreover from deductCredits_contract [of ?u 3] b
  have "deductCredits ?u 3 = (Inr (), \<lparr>credits = 7, totalCreditsUsed = 3, totalCreditsPurchased = 0\<rparr>)"
    by simp
  ultimately show ?thesis using a b by simp
qed

section \<open>The store: results\<close>

lemmas sample_eval =
  handlePaymentSuccess_def handlePaymentFailure_def sample_world_def sample_purchase_def
  findOne_paymentIntent_def findById_def addCredits_def save_transaction_def markCompleted_def
  markFailed_def refund_route_def processRefund_def clawback_def valid_refund_request_def
  requested_amount_def Let_def

lemma find_save_transaction:
  "find P txs = Some t \<Longrightarrow> P t' \<Longrightarrow> tx_id t' = tx_id t \<Longrightarrow>
   find P (save_transaction t' txs) = Some t'"
proof (induction txs)
  case Nil
  then show ?case by simp
next
  case (Cons x xs)
  show ?case
  proof (cases "P x")
    case True
    with Cons.prems show ?thesis by (simp add: save_transaction_def)
  next
    case False
    with Cons.prems have "find P xs = Some t" by simp
    from Cons.IH [OF this Cons.prems(2,3)] False Cons.prems(2)
    show ?thesis by (simp add: save_transaction_def)
  qed
qed

lemma findById_id: "findById txs i = Some t \<Longrightarrow> tx_id t = i"
  by (auto simp: findById_def find_Some_iff)

lemma findById_save:
  assumes "findById txs i = Some t" and "tx_id t' = tx_id t"
  shows "findById (save_transaction t' txs) i = Some t'"
proof -
  from assms(1) have "tx_id t = i" by (rule findById_id)
  with assms(2) have "tx_id t' = i" by simp
  with assms show ?thesis
    unfolding findById_def by (intro find_save_transaction) simp_all
qed

lemma findOne_paymentIntent_save:
  assumes "findOne_paymentIntent txs pid = Some t"
    and "tx_id t' = tx_id t" and "paymentIntentId t' = paymentIntentId t"
  shows "findOne_paymentIntent (save_transaction t' txs) pid = Some t'"
proof -
  from assms(1) have "paymentIntentId t = Some pid"
    by (auto simp: findOne_paymentIntent_def find_Some_iff)
  with assms(3) have "paymentIntentId t' = Some pid" by simp
  with assms(1,2) show ?thesis
    unfolding findOne_paymentIntent_def by (intro find_save_transaction) simp_all
qed

section \<open>Payment settlement: results\<close>

text \<open>
  What holds of the success handler: the first delivery for a transaction that is not
  completed, of an existing user, credits the user and completes the transaction; every
  further delivery changes nothing, and so does a delivery for an unknown or a completed
  transaction.
\<close>

lemma handlePaymentSuccess_first:
  assumes "findOne_paymentIntent (transactions w) pid = Some t"
    and "tx_status t \<noteq> completed"
    and "map_of (users w) (tx_user t) = Some u"
  shows "handlePaymentSuccess now w pid =
           w\<lparr>users := AList.update (tx_user t) (addCredits u (tx_credits t)) (users w),
             transactions := save_transaction (markCompleted now t) (transactions w)\<rparr>"
  using assms by (simp add: handlePaymentSuccess_def)

lemma handlePaymentSuccess_replay:
  assumes "findOne_paymentIntent (transactions w) pid = Some t"
    and "tx_status t \<noteq> completed"
    and "map_of (users w) (tx_user t) = Some u"
  shows "handlePaymentSuccess now' (handlePaymentSuccess now w pid) pid
           = handlePaymentSuccess now w pid"
proof -
  let ?w' = "handlePaymentSuccess now w pid"
  have "transactions ?w' = save_transaction (markCompleted now t) (transactions w)"
    using assms by (simp add: handlePaymentSuccess_first)
  then have "findOne_paymentIntent (transactions ?w') pid = Some (markCompleted now t)"
    using assms(1) by (simp add: findOne_paymentIntent_save markCompleted_def)
  moreover have "tx_status (markCompleted now t) = completed"
    by (simp add: markCompleted_def)
  ultimately show ?thesis
    by (simp add: handlePaymentSuccess_def [of now' ?w'])
qed

lemma deliver_fixed: "handlePaymentSuccess now w pid = w \<Longrightarrow> deliver n now w pid = w"
  by (induction n) simp_all

lemma webhook_replay_credits_once:
  assumes "findOne_paymentIntent (transactions w) pid = Some t"
    and "tx_status t = pending"
    and "map_of (users w) (tx_user t) = Some u"
  shows "deliver (Suc n) now w pid = handlePaymentSuccess now w pid"
proof -
  from assms(2) have "tx_status t \<noteq> completed" by simp
  from handlePaymentSuccess_replay [OF assms(1) this assms(3)]
  have "handlePaymentSuccess now (handlePaymentSuccess now w pid) pid
          = handlePaymentSuccess now w pid" .
  then show ?thesis by (simp add: deliver_fixed)
qed

lemma handlePaymentSuccess_unknown:
  "findOne_paymentIntent (transactions w) pid = None \<Longrightarrow> handlePaymentSuccess now w pid = w"
  by (simp add: handlePaymentSuccess_def)

lemma handlePaymentSuccess_completed:
  "findOne_paymentIntent (transactions w) pid = Some t \<Longrightarrow> tx_status t = completed \<Longrightarrow>
   handlePaymentSuccess now w pid = w"
  by (simp add: handlePaymentSuccess_def)

text \<open>
  Claim C3. A success event for a transaction that is no longer pending must change
  nothing. The handler only tests for \<open>completed\<close>, where its sibling for the failure
  event tests for "not pending". The purchase of 600 credits is settled (balance 10 to
  610), refunded by the admin route (balance back to 10, status \<open>refunded\<close>), and the
  same success event is delivered once more: the account is credited a second time and
  the refunded transaction is completed again. The failure handler leaves that store
  alone.
\<close>

theorem success_event_after_refund_credits_again:
  "map tx_status (transactions (snd (refund_route 7
       (handlePaymentSuccess 5 (sample_world pending) ''pi_1'') 1 ''chargeback'' None)))
     = [refunded]
   \<and> map_of (users (snd (refund_route 7
       (handlePaymentSuccess 5 (sample_world pending) ''pi_1'') 1 ''chargeback'' None))) 1
     = Some \<lparr>credits = 10, totalCreditsUsed = 0, totalCreditsPurchased = 600\<rparr>
   \<and> map_of (users (handlePaymentSuccess 9 (snd (refund_route 7
       (handlePaymentSuccess 5 (sample_world pending) ''pi_1'') 1 ''chargeback'' None)) ''pi_1'')) 1
     = Some \<lparr>credits = 610, totalCreditsUsed = 0, totalCreditsPurchased = 1200\<rparr>
   \<and> map tx_status (transactions (handlePaymentSuccess 9 (snd (refund_route 7
       (handlePaymentSuccess 5 (sample_world pending) ''pi_1'') 1 ''chargeback'' None)) ''pi_1''))
     = [completed]
   \<and> handlePaymentFailure 9 ''declined'' (snd (refund_route 7
       (handlePaymentSuccess 5 (sample_world pending) ''pi_1'') 1 ''chargeback'' None)) ''pi_1''
     = snd (refund_route 7
       (handlePaymentSuccess 5 (sample_world pending) ''pi_1'') 1 ''chargeback'' None)"
  by (simp add: sample_eval)

section \<open>Admin refund: results\<close>

lemma refund_accepted_transactions:
  assumes "findById (transactions w) i = Some t"
    and "tx_status t = completed" and "\<not> refund_isRefunded t"
    and "valid_refund_request reason amount"
  shows "transactions (snd (refund_route now w i reason amount)) =
           save_transaction
             (processRefund now (requested_amount amount t) reason (''refund_'' @ string_of_nat now) t)
             (transactions w)"
  using assms
  by (auto simp: refund_route_def Let_def split: option.splits)

text \<open>
  Claim C8, as stated, fails: the second refund of the sample purchase is not answered
  with the "already refunded" error.
\<close>

theorem second_refund_counterexample:
  "fst (refund_route 7 (sample_world completed) 1 ''duplicate'' None) = Refund_Ok
   \<and> fst (refund_route 8 (snd (refund_route 7 (sample_world completed) 1 ''duplicate'' None)) 1
         ''again'' None) \<noteq> Refund_AlreadyRefunded"
  by (simp add: sample_eval)

text \<open>
  Claim C8, amended. After the refund of a completed transaction that was not refunded
  yet, a second refund request for it is rejected by the test of the status, which is now
  \<open>refunded\<close>, with the error for transactions that are not completed; the flag
  \<open>isRefunded\<close> is not looked at. The second request changes neither the transaction nor
  any balance: the store stays as the first refund left it.
\<close>

theorem second_refund_rejected:
  assumes "findById (transactions w) i = Some t"
    and "tx_status t = completed" and "\<not> refund_isRefunded t"
    and "valid_refund_request reason amount"
    and "valid_refund_request reason' amount'"
  shows "refund_route now' (snd (refund_route now w i reason amount)) i reason' amount'
           = (Refund_NotCompleted, snd (refund_route now w i reason amount))"
proof -
  let ?t' = "processRefund now (requested_amount amount t) reason (''refund_'' @ string_of_nat now) t"
  let ?w1 = "snd (refund_route now w i reason amount)"
  have "transactions ?w1 = save_transaction ?t' (transactions w)"
    using assms(1-4) by (rule refund_accepted_transactions)
  moreover have "tx_id ?t' = tx_id t" by (simp add: processRefund_def)
  ultimately have "findById (transactions ?w1) i = Some ?t'"
    using assms(1) by (simp add: findById_save)
  moreover have "tx_status ?t' \<noteq> completed" by (simp add: processRefund_def)
  ultimately show ?thesis
    using assms(5) by (simp add: refund_route_def)
qed

theorem second_refund_rejected_witness:
  "findById (transactions (sample_world completed)) 1 = Some (sample_purchase completed)
   \<and> tx_status (sample_purchase completed) = completed
   \<and> \<not> refund_isRefunded (sample_purchase completed)
   \<and> valid_refund_request ''duplicate'' None
   \<and> valid_refund_request ''again'' (Some 5)
   \<and> refund_route 8 (snd (refund_route 7 (sample_world completed) 1 ''duplicate'' None)) 1
        ''again'' (Some 5)
       = (Refund_NotCompleted, snd (refund_route 7 (sample_world completed) 1 ''duplicate'' None))"
proof -
  have h1: "findById (transactions (sample_world completed)) 1 = Some (sample_purchase completed)"
    by (simp add: sample_world_def sample_purchase_def findById_def)
  have h2: "tx_status (sample_purchase completed) = completed"
    and h3: "\<not> refund_isRefunded (sample_purchase completed)"
    by (simp_all add: sample_purchase_def)
  have h4: "valid_refund_request ''duplicate'' None"
    and h5: "valid_refund_request ''again'' (Some 5)"
    by (simp_all add: valid_refund_request_def)
  from second_refund_rejected [OF h1 h2 h3 h4 h5, of 8 7] h1 h2 h3 h4 h5
  show ?thesis by simp
qed

text \<open>
  Claim C9, as stated, fails: a refund of 100 on the completed purchase of 39.99 is
  accepted; the transaction becomes \<open>refunded\<close> with a refund amount of 100, and the 600
  credits are taken back from the balance.
\<close>

theorem refund_amount_counterexample:
  "map tx_status (transactions (handlePaymentSuccess 5 (sample_world pending) ''pi_1''))
     = [completed]
   \<and> map tx_amount (transactions (handlePaymentSuccess 5 (sample_world pending) ''pi_1''))
     = [3999 / 100]
   \<and> map_of (users (handlePaymentSuccess 5 (sample_world pending) ''pi_1'')) 1
     = Some \<lparr>credits = 610, totalCreditsUsed = 0, totalCreditsPurchased = 600\<rparr>
   \<and> fst (refund_route 7 (handlePaymentSuccess 5 (sample_world pending) ''pi_1'') 1
          ''goodwill'' (Some 100)) = Refund_Ok
   \<and> map tx_status (transactions (snd (refund_route 7
          (handlePaymentSuccess 5 (sample_world pending) ''pi_1'') 1 ''goodwill'' (Some 100))))
     = [refunded]
   \<and> map refund_refundAmount (transactions (snd (refund_route 7
          (handlePaymentSuccess 5 (sample_world pending) ''pi_1'') 1 ''goodwill'' (Some 100))))
     = [100]
   \<and> map_of (users (snd (refund_route 7
          (handlePaymentSuccess 5 (sample_world pending) ''pi_1'') 1 ''goodwill'' (Some 100)))) 1
     = Some \<lparr>credits = 10, totalCreditsUsed = 0, totalCreditsPurchased = 600\<rparr>"
  by (simp add: sample_eval)

text \<open>
  Claim C9, amended. The refund of a completed transaction that was not refunded yet
  does not compare the amount with the amount of the transaction. Every request with a
  reason and with no amount or an amount \<open>\<ge> 0\<close> is accepted: the transaction is saved as
  \<open>processRefund\<close> leaves it, with the requested amount (its own amount when none or 0 was
  asked for), and the credits of the transaction are taken back from the user's balance
  when the balance covers them.
\<close>

theorem refund_amount_unbounded:
  assumes "findById (transactions w) i = Some t"
    and "tx_status t = completed" and "\<not> refund_isRefunded t"
    and "valid_refund_request reason amount"
    and "map_of (users w) (tx_user t) = Some u"
  shows "refund_route now w i reason amount =
           (Refund_Ok,
            w\<lparr>transactions := save_transaction
                 (processRefund now (requested_amount amount t) reason
                    (''refund_'' @ string_of_nat now) t)
                 (transactions w),
              users := (if tx_credits t > 0
                        then AList.update (tx_user t) (clawback u (tx_credits t)) (users w)
                        else users w)\<rparr>)"
  using assms
  by (auto simp: refund_route_def Let_def split: option.splits)

theorem refund_amount_unbounded_witness:
  "findById (transactions (sample_world completed)) 1 = Some (sample_purchase completed)
   \<and> tx_status (sample_purchase completed) = completed
   \<and> \<not> refund_isRefunded (sample_purchase completed)
   \<and> valid_refund_request ''goodwill'' (Some 100)
   \<and> map_of (users (sample_world completed)) (tx_user (sample_purchase completed))
       = Some \<lparr>credits = 10, totalCreditsUsed = 0, totalCreditsPurchased = 0\<rparr>
   \<and> tx_amount (sample_purchase completed) < 100
   \<and> fst (refund_route 7 (sample_world completed) 1 ''goodwill'' (Some 100)) = Refund_Ok
   \<and> map refund_refundAmount
       (transactions (snd (refund_route 7 (sample_world completed) 1 ''goodwill'' (Some 100))))
       = [100]"
proof -
  let ?u = "\<lparr>credits = 10, totalCreditsUsed = 0, totalCreditsPurchased = 0\<rparr>"
  have h1: "findById (transactions (sample_world completed)) 1 = Some (sample_purchase completed)"
    by (simp add: sample_world_def sample_purchase_def findById_def)
  have h2: "tx_status (sample_purchase completed) = completed"
    and h3: "\<not> refund_isRefunded (sample_purchase completed)"
    by (simp_all add: sample_purchase_def)
  have h4: "valid_refund_request ''goodwill'' (Some 100)"
    by (simp add: valid_refund_request_def)
  have h5: "map_of (users (sample_world completed)) (tx_user (sample_purchase completed)) = Some ?u"
    by (simp add: sample_world_def sample_purchase_def)
  have h6: "tx_amount (sample_purchase completed) < 100"
    by (simp add: sample_purchase_def)
  have e: "map refund_refundAmount
       (transactions (snd (refund_route 7 (sample_world completed) 1 ''goodwill'' (Some 100))))
       = [100]"
    by (simp add: sample_eval)
  from refund_amount_unbounded [OF h1 h2 h3 h4 h5, of 7] h1 h2 h3 h4 h5 h6 e
  show ?thesis by simp
qed

section \<open>Metered AI usage: results\<close>

lemma sample_estimate:
  "calculateCredits (estimatedTokens (prompt sample_request)) (request_model sample_request)
     = Number 2"
  by code_simp

lemma sample_available: "isModelAvailable (request_model sample_request)"
  by code_simp

lemma sample_provider_failure:
  "callRealAI all_keys_set failing_provider (prompt sample_request)
     (request_type sample_request) (request_model sample_request) 0 = (None, 1)"
  by (simp add: callRealAI_def getProviderForModel_def AI_PROVIDERS_entries_def
      openai_config_def js_get_def all_keys_set_def failing_provider_def sample_request_def
      request_model_def)



text \<open>
  Claim C5. When the estimated cost of a request is above the balance of its user, the
  handler ends at the admission check: the store is left as it was, so the balance is
  unchanged and no request was sent to a provider, whatever the provider would have
  answered; and the answer is the 402 with the required and the available credits. (A
  request that names a model that is not available is answered 400 before any estimate
  is made, and leaves the store unchanged as well.)
\<close>

theorem admission_check:
  assumes "map_of (users w) uid = Some u"
    and "js_less (Number (credits u))
           (calculateCredits (estimatedTokens (prompt req)) (request_model req))"
  shows "snd (generate apiKey ext now w uid req) = w
         \<and> (isModelAvailable (request_model req) \<longrightarrow>
              fst (generate apiKey ext now w uid req) =
                AI_InsufficientCredits
                  (calculateCredits (estimatedTokens (prompt req)) (request_model req))
                  (credits u))"
  using assms by (simp add: generate_def generate_with_def Let_def)

theorem admission_check_witness:
  "map_of (users (ai_world 1)) 1
     = Some \<lparr>credits = 1, totalCreditsUsed = 0, totalCreditsPurchased = 0\<rparr>
   \<and> js_less (Number 1)
        (calculateCredits (estimatedTokens (prompt sample_request)) (request_model sample_request))
   \<and> isModelAvailable (request_model sample_request)
   \<and> generate all_keys_set replying_provider 3 (ai_world 1) 1 sample_request
       = (AI_InsufficientCredits (Number 2) 1, ai_world 1)
   \<and> providerCalls (snd (generate all_keys_set replying_provider 3 (ai_world 1) 1 sample_request))
       = 0"
proof -
  let ?u = "\<lparr>credits = 1, totalCreditsUsed = 0, totalCreditsPurchased = 0\<rparr>"
  have h1: "map_of (users (ai_world 1)) 1 = Some ?u" by (simp add: ai_world_def)
  have h2: "js_less (Number (credits ?u))
        (calculateCredits (estimatedTokens (prompt sample_request)) (request_model sample_request))"
    by (simp add: sample_estimate)
  have c: "providerCalls (ai_world 1) = 0" by (simp add: ai_world_def)
  from admission_check [OF h1 h2, of all_keys_set replying_provider 3]
       h1 h2 sample_available sample_estimate c
  show ?thesis by (simp add: prod_eq_iff)
qed




text \<open>
  With a validation that lets every save of the log through, the same handler goes on
  after a failed call to the answer 500 and the failed log, and after a reply to the
  debit of the actual cost and a completed usage transaction.
\<close>

lemma sample_actual_cost: "calculateCredits 1200 (request_model sample_request) = Number 4"
  by code_simp

lemma sample_provider_reply:
  "callRealAI all_keys_set replying_provider (prompt sample_request)
     (request_type sample_request) (request_model sample_request) 0
     = (Some (''ok'', 1200, 850), 1)"
  by (simp add: callRealAI_def getProviderForModel_def AI_PROVIDERS_entries_def
      openai_config_def js_get_def all_keys_set_def replying_provider_def sample_request_def
      request_model_def)

lemma sample_usage_transaction_valid:
  "valid_transaction
     (usage_transaction 3 1 1 (request_model sample_request) (request_type sample_request) 1200 4)"
  by (simp add: valid_transaction_def usage_transaction_def transaction_requestTypes_def
      sample_request_def request_model_def request_type_def)

lemma generate_with_any_log_reply:
  "fst (generate_with any_log all_keys_set replying_provider 3 (ai_world 10) 1 sample_request)
     = AI_Ok ''ok'' 4 2
   \<and> map_of (users
       (snd (generate_with any_log all_keys_set replying_provider 3 (ai_world 10) 1
          sample_request))) 1
     = Some \<lparr>credits = 6, totalCreditsUsed = 4, totalCreditsPurchased = 0\<rparr>
   \<and> map tx_credits (transactions
       (snd (generate_with any_log all_keys_set replying_provider 3 (ai_world 10) 1
          sample_request)))
     = [4]"
  using sample_provider_reply sample_usage_transaction_valid
  by (simp add: generate_with_def Let_def any_log_def sample_estimate sample_available
      sample_actual_cost ai_world_def deductCredits_def fresh_tx_id_def
      usage_transaction_def)

lemma generate_with_any_log_failure:
  "fst (generate_with any_log all_keys_set failing_provider 3 (ai_world 10) 1 sample_request)
     = AI_ServerError
   \<and> transactions
       (snd (generate_with any_log all_keys_set failing_provider 3 (ai_world 10) 1 sample_request))
     = []
   \<and> map log_status
       (aiLogs (snd (generate_with any_log all_keys_set failing_provider 3 (ai_world 10) 1
          sample_request)))
     = [log_failed]"
  using sample_provider_failure
  by (simp add: generate_with_def on_error_def Let_def any_log_def sample_estimate
      sample_available ai_world_def new_ai_log_def)

end
